theory Spec2Isabelle
  imports Complex_Main "HOL-Library.Sublist"
begin

section \<open>Python strings\<close>

text \<open>
  A Python \<open>str\<close> is modelled as a \<open>string\<close> (a list of \<open>char\<close>), each \<open>char\<close>
  standing for the code point \<open>of_char c\<close> in the range 0..255 (Latin-1). The
  character classes below are those of Python 3 on that range, first on code points and
  then on characters: \<open>str.isnumeric\<close>, \<open>str.isalpha\<close>, \<open>str.lower\<close> and the classes \<open>\s\<close>,
  \<open>\w\<close>, \<open>\d\<close> of \<open>re\<close> on \<open>str\<close> patterns. Text with code points above 255 is outside the
  model.
\<close>

datatype error =
    ValueError       \<comment> \<open>\<open>str.index\<close>: substring not found\<close>
  | TemplateEscape   \<comment> \<open>\<open>re.sub\<close>: the replacement text holds a backslash, which \<open>re\<close>
                         expands as an escape or rejects; not modelled further\<close>
  | BadPattern       \<comment> \<open>\<open>re.sub\<close>: the pattern built from the constants is not one the
                         model covers\<close>

definition cp :: "char \<Rightarrow> int" where
  "cp c = of_char c"

definition isdigit_cp :: "int \<Rightarrow> bool" where
  "isdigit_cp n = (48 \<le> n \<and> n \<le> 57)"

definition isnumeric_cp :: "int \<Rightarrow> bool" where
  "isnumeric_cp n = (isdigit_cp n \<or> n \<in> {178, 179, 185, 188, 189, 190})"

definition isupper_cp :: "int \<Rightarrow> bool" where
  "isupper_cp n = (65 \<le> n \<and> n \<le> 90)"

definition islower_cp :: "int \<Rightarrow> bool" where
  "islower_cp n = (97 \<le> n \<and> n \<le> 122)"

definition isalpha_cp :: "int \<Rightarrow> bool" where
  "isalpha_cp n = (isupper_cp n \<or> islower_cp n \<or> n \<in> {170, 181, 186}
     \<or> (192 \<le> n \<and> n \<le> 214) \<or> (216 \<le> n \<and> n \<le> 246) \<or> 248 \<le> n)"

definition isspace_cp :: "int \<Rightarrow> bool" where
  "isspace_cp n = ((9 \<le> n \<and> n \<le> 13) \<or> (28 \<le> n \<and> n \<le> 32) \<or> n = 133 \<or> n = 160)"

definition lower_cp :: "int \<Rightarrow> int" where
  "lower_cp n = (if isupper_cp n \<or> (192 \<le> n \<and> n \<le> 214) \<or> (216 \<le> n \<and> n \<le> 222)
     then n + 32 else n)"

text \<open>The classes on characters: \<open>\d\<close>, \<open>[A-Z]\<close>, \<open>[a-z]\<close>, \<open>[a-zA-Z]\<close>, \<open>\s\<close>, \<open>\w\<close>.\<close>

definition isdigit_char :: "char \<Rightarrow> bool" where
  "isdigit_char c = isdigit_cp (cp c)"

definition isnumeric_char :: "char \<Rightarrow> bool" where
  "isnumeric_char c = isnumeric_cp (cp c)"

definition isupper_ascii :: "char \<Rightarrow> bool" where
  "isupper_ascii c = isupper_cp (cp c)"

definition islower_ascii :: "char \<Rightarrow> bool" where
  "islower_ascii c = islower_cp (cp c)"

definition isletter_cp :: "int \<Rightarrow> bool" where
  "isletter_cp n = (isupper_cp n \<or> islower_cp n)"

definition isletter_ascii :: "char \<Rightarrow> bool" where
  "isletter_ascii c = isletter_cp (cp c)"

definition isalpha_char :: "char \<Rightarrow> bool" where
  "isalpha_char c = isalpha_cp (cp c)"

definition isspace_char :: "char \<Rightarrow> bool" where
  "isspace_char c = isspace_cp (cp c)"

definition isword_cp :: "int \<Rightarrow> bool" where
  "isword_cp n = (isalpha_cp n \<or> isnumeric_cp n \<or> n = 95)"

definition isword_char :: "char \<Rightarrow> bool" where
  "isword_char c = isword_cp (cp c)"

definition lower_char :: "char \<Rightarrow> char" where
  "lower_char c = char_of (lower_cp (cp c))"

definition lower :: "string \<Rightarrow> string" where
  "lower s = map lower_char s"

definition isnumeric :: "string \<Rightarrow> bool" where
  "isnumeric s = (s \<noteq> [] \<and> list_all isnumeric_char s)"

definition isalpha :: "string \<Rightarrow> bool" where
  "isalpha s = (s \<noteq> [] \<and> list_all isalpha_char s)"

text \<open>\<open>s.find(sub)\<close>: the index of the leftmost occurrence of \<open>sub\<close> in \<open>s\<close>.\<close>

fun py_find :: "string \<Rightarrow> string \<Rightarrow> nat option" where
  "py_find [] sub = (if sub = [] then Some 0 else None)"
| "py_find (c # cs) sub =
     (if prefix sub (c # cs) then Some 0 else map_option Suc (py_find cs sub))"

text \<open>\<open>sub in s\<close>.\<close>

definition py_in :: "string \<Rightarrow> string \<Rightarrow> bool" where
  "py_in sub s = (py_find s sub \<noteq> None)"

text \<open>\<open>s.index(sub)\<close>: as \<open>find\<close>, but raises \<open>ValueError\<close> when \<open>sub\<close> does not occur.\<close>

definition py_index :: "string \<Rightarrow> string \<Rightarrow> error + nat" where
  "py_index s sub = (case py_find s sub of None \<Rightarrow> Inl ValueError | Some i \<Rightarrow> Inr i)"

section \<open>The lexical classifier (class Filter)\<close>

definition diff :: "string \<Rightarrow> string \<Rightarrow> error + string" where
  "diff s1 s2 =
     (case py_index s1 s2 of
        Inl e \<Rightarrow> Inl e
      | Inr left \<Rightarrow> Inr (take left s1 @ drop (left + length s2) s1))"

text \<open>
  \<open>isKeyWord\<close> loops over the constant \<open>TAGS\<close> of \<open>variables/sintax.py\<close>, a file that is
  not part of the sources at hand; the list is a parameter of the model.
\<close>

fun isKeyWord :: "string list \<Rightarrow> string \<Rightarrow> error + bool" where
  "isKeyWord [] string = Inr False"
| "isKeyWord (keyword # tags) string =
     (if py_in keyword string \<and> py_index string keyword = Inr 0 then
        (case diff string keyword of
           Inl e \<Rightarrow> Inl e
         | Inr d \<Rightarrow> if length d = 0 \<or> isnumeric d then Inr True else isKeyWord tags string)
      else isKeyWord tags string)"

text \<open>
  Modelled from the spec: the constants of \<open>variables/sintax.py\<close>, which is missing. The
  spec's token vocabulary names the placeholders; each constant is taken to be the
  identifier the spec gives it, and \<open>TAGS\<close> to be the list of them.
\<close>

definition HTML :: string where "HTML = ''HTML''"
definition REFERENCE :: string where "REFERENCE = ''REFERENCE''"
definition LINK :: string where "LINK = ''LINK''"
definition URL :: string where "URL = ''URL''"
definition PATH :: string where "PATH = ''PATH''"
definition NUMBER :: string where "NUMBER = ''NUMBER''"
definition TRUE :: string where "TRUE = ''TRUE''"
definition FALSE :: string where "FALSE = ''FALSE''"
definition NULL :: string where "NULL = ''NULL''"
definition VARIABLE :: string where "VARIABLE = ''VARIABLE''"
definition INVOCATION :: string where "INVOCATION = ''INVOCATION''"
definition DOT_INVOCATION :: string where "DOT_INVOCATION = ''DOT_INVOCATION''"
definition STABLE_REDUCTION :: string where "STABLE_REDUCTION = ''STABLE_REDUCTION''"
definition NEXT :: string where "NEXT = ''NEXT''"

definition TAGS :: "string list" where
  "TAGS = [HTML, REFERENCE, LINK, URL, PATH, NUMBER, TRUE, FALSE, NULL, VARIABLE,
           INVOCATION, DOT_INVOCATION, STABLE_REDUCTION, NEXT]"

lemmas vocabulary_defs =
  HTML_def REFERENCE_def LINK_def URL_def PATH_def NUMBER_def TRUE_def FALSE_def NULL_def
  VARIABLE_def INVOCATION_def DOT_INVOCATION_def STABLE_REDUCTION_def NEXT_def TAGS_def

section \<open>Regular expressions as \<open>re\<close> runs them\<close>

text \<open>
  The passes are calls of \<open>re.sub\<close>. A pattern is a term of \<open>regex\<close>; \<open>ends r g s\<close>
  lists, in the order in which the backtracking matcher of \<open>re\<close> tries them, every way
  of matching \<open>r\<close> at the start of \<open>s\<close>: the text left after the match and the groups
  captured. The match \<open>re\<close> reports is the first of the list. \<open>Star\<close> is the greedy
  \<open>*\<close>, \<open>Lazy\<close> the non-greedy \<open>*?\<close>; an iteration that consumes nothing ends the
  repetition (no pattern of this program has such a body).
\<close>

datatype regex =
    Eps
  | Cls "char \<Rightarrow> bool"
  | Seq regex regex
  | Alt regex regex
  | Star regex
  | Lazy regex
  | Grp nat regex

type_synonym groups = "nat \<rightharpoonup> string"

fun ends :: "regex \<Rightarrow> groups \<Rightarrow> string \<Rightarrow> (groups \<times> string) list" where
  "ends Eps g s = [(g, s)]"
| "ends (Cls p) g s = (case s of [] \<Rightarrow> [] | c # cs \<Rightarrow> if p c then [(g, cs)] else [])"
| "ends (Seq a b) g s = concat (map (\<lambda>(g', t). ends b g' t) (ends a g s))"
| "ends (Alt a b) g s = ends a g s @ ends b g s"
| "ends (Star a) g s =
     concat (map (\<lambda>(g', t). if length t < length s then ends (Star a) g' t else [])
                 (ends a g s))
     @ [(g, s)]"
| "ends (Lazy a) g s =
     (g, s) #
     concat (map (\<lambda>(g', t). if length t < length s then ends (Lazy a) g' t else [])
                 (ends a g s))"
| "ends (Grp n a) g s =
     map (\<lambda>(g', t). (g'(n \<mapsto> take (length s - length t) s), t)) (ends a g s)"

definition Chr :: "char \<Rightarrow> regex" where
  "Chr c = Cls (\<lambda>x. x = c)"

definition NotChr :: "char \<Rightarrow> regex" where
  "NotChr c = Cls (\<lambda>x. x \<noteq> c)"

fun Lit :: "string \<Rightarrow> regex" where
  "Lit [] = Eps"
| "Lit (c # cs) = Seq (Chr c) (Lit cs)"

definition Plus :: "regex \<Rightarrow> regex" where
  "Plus r = Seq r (Star r)"

definition Opt :: "regex \<Rightarrow> regex" where
  "Opt r = Alt r Eps"

text \<open>\<open>pattern.match(s)\<close> at the start of \<open>s\<close>: the groups and the text after the match.\<close>

definition re_match :: "regex \<Rightarrow> string \<Rightarrow> (groups \<times> string) option" where
  "re_match r s = (case ends r Map.empty s of [] \<Rightarrow> None | m # _ \<Rightarrow> Some m)"


text \<open>
  A replacement template without escapes other than group references: literal text
  (\<open>T\<close>) and \<open>\1\<close>, \<open>\2\<close> (\<open>G\<close>). A group that did not take part in the match expands to
  the empty string.
\<close>

datatype titem = T string | G nat

fun expand :: "titem list \<Rightarrow> groups \<Rightarrow> string" where
  "expand [] g = []"
| "expand (T s # ts) g = s @ expand ts g"
| "expand (G n # ts) g = (case g n of None \<Rightarrow> [] | Some v \<Rightarrow> v) @ expand ts g"

text \<open>
  \<open>re.sub(r, t, s)\<close>: scanning from the left, each leftmost match is replaced and the
  scan goes on after it. Every pattern of this program consumes at least one character
  (\<open>nullable\<close> below is false of each); a match of the empty string, which \<open>re\<close> would
  also replace, is passed over.
\<close>

fun re_sub :: "regex \<Rightarrow> titem list \<Rightarrow> string \<Rightarrow> string" where
  "re_sub r t [] = []"
| "re_sub r t (c # cs) =
     (case re_match r (c # cs) of
        None \<Rightarrow> c # re_sub r t cs
      | Some (g, rest) \<Rightarrow>
          if length rest < Suc (length cs) then expand t g @ re_sub r t rest
          else c # re_sub r t cs)"

fun nullable :: "regex \<Rightarrow> bool" where
  "nullable Eps = True"
| "nullable (Cls p) = False"
| "nullable (Seq a b) = (nullable a \<and> nullable b)"
| "nullable (Alt a b) = (nullable a \<or> nullable b)"
| "nullable (Star a) = True"
| "nullable (Lazy a) = True"
| "nullable (Grp n a) = nullable a"

section \<open>Other string operations of Python\<close>

text \<open>\<open>s.replace(old, new)\<close>: the leftmost occurrences of \<open>old\<close> that do not overlap.\<close>

fun replace_ne :: "string \<Rightarrow> string \<Rightarrow> string \<Rightarrow> string" where
  "replace_ne old new [] = []"
| "replace_ne old new (c # cs) =
     (if prefix old (c # cs) then new @ replace_ne old new (drop (length old - 1) cs)
      else c # replace_ne old new cs)"

definition py_replace :: "string \<Rightarrow> string \<Rightarrow> string \<Rightarrow> string" where
  "py_replace old new s =
     (if old = [] then new @ concat (map (\<lambda>c. c # new) s) else replace_ne old new s)"

text \<open>\<open>sep.join(xs)\<close>.\<close>

fun py_join :: "string \<Rightarrow> string list \<Rightarrow> string" where
  "py_join sep [] = []"
| "py_join sep [x] = x"
| "py_join sep (x # y # ys) = x @ sep @ py_join sep (y # ys)"

text \<open>\<open>s.split(d)\<close> for a separator \<open>d\<close> of one character.\<close>

fun py_split :: "char \<Rightarrow> string \<Rightarrow> string list" where
  "py_split d [] = [[]]"
| "py_split d (c # cs) =
     (if c = d then [] # py_split d cs
      else (c # hd (py_split d cs)) # tl (py_split d cs))"

text \<open>\<open>"%d" % n\<close> for \<open>n \<ge> 0\<close>.\<close>

fun string_of_nat :: "nat \<Rightarrow> string" where
  "string_of_nat n =
     (if n < 10 then [char_of (48 + n)]
      else string_of_nat (n div 10) @ [char_of (48 + n mod 10)])"

declare string_of_nat.simps [simp del]

definition dquote :: char where "dquote = CHR 0x22"
definition backslash :: char where "backslash = CHR 0x5C"
definition newline :: char where "newline = CHR 0x0A"
definition tab :: char where "tab = CHR 0x09"

text \<open>\<open>" %s " % x\<close>.\<close>

definition spaced :: "string \<Rightarrow> string" where
  "spaced x = '' '' @ x @ '' ''"

section \<open>The rewrite passes\<close>

text \<open>
  Each pass is the pattern of the source, written as a \<open>regex\<close>, and its replacement.
  Parentheses of a pattern that the replacement never refers to only group; they are
  written without \<open>Grp\<close>.
\<close>

text \<open>
  \<open>filterStrings\<close>: the pattern is \<open>".*?[^\\]"\<close>. The replacement is \<open>" %s " % string\<close>,
  the text being filtered itself; \<open>re.sub\<close> reads it as a template, so a text holding a
  backslash is answered by \<open>TemplateEscape\<close>.
\<close>

definition strings_re :: regex where
  "strings_re =
     Seq (Chr dquote) (Seq (Lazy (NotChr newline)) (Seq (NotChr backslash) (Chr dquote)))"

definition filterStrings :: "string \<Rightarrow> error + string" where
  "filterStrings string =
     (if backslash \<in> set string then Inl TemplateEscape
      else Inr (re_sub strings_re [T (spaced string)] string))"

text \<open>\<open>filterTags\<close>: \<open><[^>]*>\<close>.\<close>

definition tags_re :: regex where
  "tags_re = Seq (Chr CHR ''<'') (Seq (Star (NotChr CHR ''>'')) (Chr CHR ''>''))"

definition filterTags :: "string \<Rightarrow> string" where
  "filterTags string = re_sub tags_re [T (spaced HTML)] string"

text \<open>\<open>filterRefs\<close>: \<open>&\w+\<close>.\<close>

definition refs_re :: regex where
  "refs_re = Seq (Chr CHR ''&'') (Plus (Cls isword_char))"

definition filterRefs :: "string \<Rightarrow> string" where
  "filterRefs string = re_sub refs_re [T (spaced REFERENCE)] string"

text \<open>
  \<open>filterLinks\<close>: an opening brace and an at sign, in either order, then \<open>[^\}]*\}\<close>.
\<close>

definition links_re :: regex where
  "links_re =
     Seq (Alt (Lit [CHR ''{'', CHR ''@'']) (Lit [CHR ''@'', CHR ''{''])) (Seq (Star (NotChr CHR ''}'')) (Chr CHR ''}''))"

definition filterLinks :: "string \<Rightarrow> string" where
  "filterLinks string = re_sub links_re [T (spaced LINK)] string"




text \<open>
  \<open>filterURLs\<close>:
  \<open>((\w+:(//|\\\\))?(\w+[\w.@]*\.[a-z]{2,3})(\w|\.|/|\\|\?|=|-)*)|(\w+:(//|\\\\))\<close>.
\<close>

definition scheme_re :: regex where
  "scheme_re =
     Seq (Plus (Cls isword_char))
       (Seq (Chr CHR '':'') (Alt (Lit ''//'') (Lit [backslash, backslash])))"

definition domain_re :: regex where
  "domain_re =
     Seq (Plus (Cls isword_char))
       (Seq (Star (Cls (\<lambda>c. isword_char c \<or> c = CHR ''.'' \<or> c = CHR ''@'')))
          (Seq (Chr CHR ''.'')
             (Seq (Cls islower_ascii) (Seq (Cls islower_ascii) (Opt (Cls islower_ascii))))))"

definition url_tail_re :: regex where
  "url_tail_re =
     Star (Alt (Cls isword_char) (Alt (Chr CHR ''.'') (Alt (Chr CHR ''/'')
       (Alt (Chr backslash) (Alt (Chr CHR ''?'') (Alt (Chr CHR ''='') (Chr CHR ''-'')))))))"

definition urls_re :: regex where
  "urls_re = Alt (Seq (Opt scheme_re) (Seq domain_re url_tail_re)) scheme_re"

definition filterURLs :: "string \<Rightarrow> string" where
  "filterURLs string = re_sub urls_re [T (spaced URL)] string"

text \<open>
  \<open>filterParamNames\<close>: for each parameter in turn, \<open>str.replace\<close> of the name between two
  spaces by \<open>VARIABLE\<close> and the parameter's index between two spaces.
\<close>

definition filterParamNames :: "string \<Rightarrow> string list \<Rightarrow> string" where
  "filterParamNames string params =
     foldl (\<lambda>string (i, param).
              py_replace (spaced param) (spaced (VARIABLE @ string_of_nat i)) string)
       string (List.enumerate 0 params)"

text \<open>
  \<open>filterFunctionInvocation\<close>: with \<open>space = (\s|\t)*\<close> (\<open>blank_re\<close> is \<open>(\s|\t)\<close>), \<open>word = (\@|[a-zA-Z])\w*\<close> and
  \<open>param = ({space}{word}{space}\=)?{space}{word}\<close>, the pattern is
  \<open>{space}{word}({space}\(({param}({space}\,{param})*)?\))+\<close>.
\<close>

definition blank_re :: regex where
  "blank_re = Alt (Cls isspace_char) (Chr tab)"

definition space_re :: regex where
  "space_re = Star blank_re"

definition word_re :: regex where
  "word_re = Seq (Alt (Chr CHR ''@'') (Cls isletter_ascii)) (Star (Cls isword_char))"

definition param_re :: regex where
  "param_re =
     Seq (Opt (Seq space_re (Seq word_re (Seq space_re (Chr CHR ''='')))))
       (Seq space_re word_re)"

definition invocation_re :: regex where
  "invocation_re =
     Seq space_re (Seq word_re
       (Plus (Seq space_re (Seq (Chr CHR ''('')
          (Seq (Opt (Seq param_re (Star (Seq space_re (Seq (Chr CHR '','') param_re)))))
             (Chr CHR '')''))))))"

definition filterFunctionInvocation :: "string \<Rightarrow> string" where
  "filterFunctionInvocation string = re_sub invocation_re [T (spaced INVOCATION)] string"

text \<open>\<open>filterDotTuple\<close>: \<open>{space}{word}(\.{word})+\<close>.\<close>

definition dot_tuple_re :: regex where
  "dot_tuple_re = Seq space_re (Seq word_re (Plus (Seq (Chr CHR ''.'') word_re)))"

definition filterDotTuple :: "string \<Rightarrow> string" where
  "filterDotTuple string = re_sub dot_tuple_re [T (spaced DOT_INVOCATION)] string"

text \<open>\<open>filterNumbers\<close>: \<open>(\+|-)?(\d+(\.|,)?\d+|\d+)\<close>.\<close>

definition numbers_re :: regex where
  "numbers_re =
     Seq (Opt (Alt (Chr CHR ''+'') (Chr CHR ''-'')))
       (Alt (Seq (Plus (Cls isdigit_char))
               (Seq (Opt (Alt (Chr CHR ''.'') (Chr CHR '','')))
                  (Plus (Cls isdigit_char))))
            (Plus (Cls isdigit_char)))"

definition filterNumbers :: "string \<Rightarrow> string" where
  "filterNumbers string = re_sub numbers_re [T (spaced NUMBER)] string"

definition filterConstants :: "string \<Rightarrow> string" where
  "filterConstants string =
     (let string = re_sub (Lit ''true'') [T (spaced TRUE)] string;
          string = re_sub (Lit ''false'') [T (spaced FALSE)] string;
          string = re_sub (Lit ''null'') [T (spaced NULL)] string;
          string = re_sub (Lit ''nil'') [T (spaced NULL)] string;
          string = re_sub (Lit ''none'') [T (spaced NULL)] string
      in string)"

text \<open>
  \<open>filterStableReduction\<close>: \<open>([a-zA-Z])\.([a-zA-Z])\.\<close>, replaced by
  \<open>" {}_\1_\2_ ".format(STABLE_REDUCTION)\<close>.
\<close>

definition stable_re :: regex where
  "stable_re =
     Seq (Grp 1 (Cls isletter_ascii))
       (Seq (Chr CHR ''.'') (Seq (Grp 2 (Cls isletter_ascii)) (Chr CHR ''.'')))"

definition filterStableReduction :: "string \<Rightarrow> string" where
  "filterStableReduction string =
     re_sub stable_re [T ('' '' @ STABLE_REDUCTION @ ''_''), G 1, T ''_'', G 2, T ''_ '']
       string"

text \<open>
  \<open>unpackStableReduction\<close>: \<open>{}_([^_]+)_([^_]+)_\<close> with \<open>STABLE_REDUCTION\<close> filled in (its
  characters stand for themselves in a pattern), replaced by \<open>" \1.\2. "\<close>.
\<close>

definition unpack_re :: regex where
  "unpack_re =
     Seq (Lit STABLE_REDUCTION)
       (Seq (Chr CHR ''_'')
          (Seq (Grp 1 (Plus (NotChr CHR ''_'')))
             (Seq (Chr CHR ''_'') (Seq (Grp 2 (Plus (NotChr CHR ''_''))) (Chr CHR ''_'')))))"

definition unpackStableReduction :: "string \<Rightarrow> string" where
  "unpackStableReduction string =
     re_sub unpack_re [T '' '', G 1, T ''.'', G 2, T ''. ''] string"

text \<open>
  \<open>expandWordsAndSymbols\<close>: the pattern is \<open>(\p|\q|...)\<close> over the symbols of the constant
  \<open>PUNCTUATION\<close> of the missing \<open>variables/sintax.py\<close>, replaced by \<open>" \1 "\<close>. The symbols
  are a parameter, each one character; a backslash before a character other than an
  ASCII letter or digit makes that character stand for itself. An empty list or a symbol
  that is an ASCII letter or digit gives a pattern of another meaning, answered by
  \<open>BadPattern\<close>.
\<close>

fun punctuation_re :: "string \<Rightarrow> regex" where
  "punctuation_re [] = Cls (\<lambda>c. False)"
| "punctuation_re [p] = Chr p"
| "punctuation_re (p # q # ps) = Alt (Chr p) (punctuation_re (q # ps))"

definition expandWordsAndSymbols :: "string \<Rightarrow> string \<Rightarrow> error + string" where
  "expandWordsAndSymbols punctuation string =
     (if punctuation = [] \<or> (\<exists>c \<in> set punctuation. isletter_ascii c \<or> isdigit_char c)
      then Inl BadPattern
      else Inr (re_sub (Grp 1 (punctuation_re punctuation)) [T '' '', G 1, T '' ''] string))"

text \<open>\<open>filterLongSpaces\<close>: \<open>(\s|\t)+\<close>.\<close>

definition spaces_re :: regex where
  "spaces_re = Plus blank_re"

definition filterLongSpaces :: "string \<Rightarrow> string" where
  "filterLongSpaces string = re_sub spaces_re [T '' ''] string"

definition filterFirstAndEndSpaces :: "string \<Rightarrow> string" where
  "filterFirstAndEndSpaces string =
     (if length string = 0 then string
      else let string = (if hd string = CHR '' '' then tl string else string)
           in if length string = 0 then string
              else if last string = CHR '' '' then butlast string else string)"

text \<open>
  \<open>convert\<close>: \<open>(.)([A-Z][a-z]+)\<close> replaced by \<open>\1_\2\<close>, then \<open>([a-z0-9])([A-Z])\<close> replaced
  by \<open>\1_\2\<close>, then \<open>lower\<close>.
\<close>

definition camel1_re :: regex where
  "camel1_re =
     Seq (Grp 1 (NotChr newline))
       (Grp 2 (Seq (Cls isupper_ascii) (Plus (Cls islower_ascii))))"

definition camel2_re :: regex where
  "camel2_re =
     Seq (Grp 1 (Cls (\<lambda>c. islower_ascii c \<or> isdigit_char c))) (Grp 2 (Cls isupper_ascii))"

definition convert :: "string \<Rightarrow> string" where
  "convert name =
     (let s1 = re_sub camel1_re [G 1, T ''_'', G 2] name
      in lower (re_sub camel2_re [G 1, T ''_'', G 2] s1))"

section \<open>The pipeline\<close>

definition applyFiltersForString :: "string \<Rightarrow> string \<Rightarrow> string list \<Rightarrow> error + string" where
  "applyFiltersForString punctuation string params =
     (if length string = 0 then Inr string
      else
        let string = lower string in
        case filterStrings string of
          Inl e \<Rightarrow> Inl e
        | Inr string \<Rightarrow>
            (let string = filterTags string;
                 string = filterRefs string;
                 string = filterLinks string;
                 string = filterStableReduction string;
                 string = filterURLs string;
                 string = filterNumbers string;
                 string = filterConstants string;
                 string = filterParamNames string params;
                 string = filterFunctionInvocation string
             in (case expandWordsAndSymbols punctuation string of
                   Inl e \<Rightarrow> Inl e
                 | Inr string \<Rightarrow>
                     (let string = unpackStableReduction string;
                          string = filterLongSpaces string;
                          string = filterFirstAndEndSpaces string
                      in Inr string))))"

section \<open>Records and the orchestrator\<close>

text \<open>
  Modelled from the spec: the classes \<open>Method\<close> and \<open>JavaDoc\<close> of \<open>utils/method.py\<close>, which
  is missing. The fields are the attributes that \<open>filter.py\<close> reads and writes;
  \<open>empty\<close> follows the spec's \<open>isEmpty\<close>: every text field and every sequence is empty.
\<close>

record JavaDoc =
  head :: string
  params :: "string list"
  variables :: "string list"
  results :: "string list"
  throws :: "string list"
  sees :: "string list"

definition join :: "JavaDoc \<Rightarrow> (string \<times> string) list" where
  "join javaDoc =
     [(''head'', head javaDoc),
      (''params'', py_join (spaced NEXT) (params javaDoc)),
      (''variables'', py_join (spaced NEXT) (variables javaDoc)),
      (''results'', py_join (spaced NEXT) (results javaDoc))]"

record Param =
  name :: string

record Description =
  dparams :: "Param list"

record Method =
  description :: Description
  javaDoc :: JavaDoc

definition empty :: "JavaDoc \<Rightarrow> bool" where
  "empty d = (head d = [] \<and> params d = [] \<and> variables d = [] \<and> results d = []
     \<and> throws d = [] \<and> sees d = [])"

text \<open>A list comprehension whose body may raise: the first error ends it.\<close>

fun traverse :: "('a \<Rightarrow> error + 'b) \<Rightarrow> 'a list \<Rightarrow> error + 'b list" where
  "traverse f [] = Inr []"
| "traverse f (x # xs) =
     (case f x of
        Inl e \<Rightarrow> Inl e
      | Inr y \<Rightarrow> (case traverse f xs of Inl e \<Rightarrow> Inl e | Inr ys \<Rightarrow> Inr (y # ys)))"

definition applyFiltersForMethod :: "string \<Rightarrow> Method \<Rightarrow> error + Method" where
  "applyFiltersForMethod punctuation method =
     (let ps = map name (dparams (description method));
          javaDoc = javaDoc method
      in case traverse (\<lambda>(i, name).
                case applyFiltersForString punctuation (py_replace ''_'' '' '' (convert name)) ps of
                  Inl e \<Rightarrow> Inl e
                | Inr v \<Rightarrow> Inr (''@variable'' @ string_of_nat i @ '' '' @ v))
              (List.enumerate 0 ps) of
           Inl e \<Rightarrow> Inl e
         | Inr vs \<Rightarrow>
        (case applyFiltersForString punctuation (head javaDoc) ps of
           Inl e \<Rightarrow> Inl e
         | Inr h \<Rightarrow>
        (case traverse (\<lambda>param. applyFiltersForString punctuation param ps) (params javaDoc) of
           Inl e \<Rightarrow> Inl e
         | Inr pds \<Rightarrow>
        (case traverse (\<lambda>result. applyFiltersForString punctuation result ps) (results javaDoc) of
           Inl e \<Rightarrow> Inl e
         | Inr rs \<Rightarrow>
        (case traverse (\<lambda>throw. applyFiltersForString punctuation throw ps) (throws javaDoc) of
           Inl e \<Rightarrow> Inl e
         | Inr ts \<Rightarrow>
        (case traverse (\<lambda>see. applyFiltersForString punctuation see ps) (sees javaDoc) of
           Inl e \<Rightarrow> Inl e
         | Inr ss \<Rightarrow>
             Inr (method\<lparr>javaDoc :=
                    javaDoc\<lparr>variables := vs, head := h, params := pds, results := rs,
                            throws := ts, sees := ss\<rparr>\<rparr>)))))))"

definition isNotEmpty :: "Method \<Rightarrow> bool" where
  "isNotEmpty method = (\<not> empty (javaDoc method))"

text \<open>
  \<open>applyFiltersForMethods\<close>: \<open>Pool.map\<close> returns the results in the order of its
  arguments, so it is \<open>map\<close>; an exception in a worker is raised again by \<open>map\<close>.
\<close>

definition applyFiltersForMethods ::
  "string \<Rightarrow> Method list \<Rightarrow> (Method \<Rightarrow> bool) \<Rightarrow> error + (string \<times> string) list list" where
  "applyFiltersForMethods punctuation methods filtrator =
     (case traverse (applyFiltersForMethod punctuation) methods of
        Inl e \<Rightarrow> Inl e
      | Inr methods \<Rightarrow>
          (let methods = filter filtrator methods
           in Inr (map join (map javaDoc methods))))"

section \<open>The sentence filter\<close>

text \<open>
  \<open>wordsNumber\<close> counts the words that are key words or alphabetic; \<open>isKeyWord\<close> is
  evaluated first and an error of it ends the count.
\<close>

fun wordsNumber :: "string list \<Rightarrow> string list \<Rightarrow> error + nat" where
  "wordsNumber tags [] = Inr 0"
| "wordsNumber tags (word # words) =
     (case isKeyWord tags word of
        Inl e \<Rightarrow> Inl e
      | Inr k \<Rightarrow>
          (case wordsNumber tags words of
             Inl e \<Rightarrow> Inl e
           | Inr n \<Rightarrow> Inr (if k \<or> isalpha word then Suc n else n)))"

text \<open>
  \<open>filterMeaninglessSentences\<close>: the loop over the characters carries the kept
  sentences \<open>text\<close>, the characters of the sentence being read and the sentences printed.
  The threshold \<open>NORMAL_CONCENTRATION_OF_WORDS\<close> is a constant of the missing
  \<open>variables/sintax.py\<close> and a parameter here; the quotient of the two counts is taken
  exactly, as a rational number.
\<close>

datatype zero_division = ZeroDivisionError

fun sentences_loop ::
  "string list \<Rightarrow> rat \<Rightarrow> string list \<Rightarrow> string \<Rightarrow> string list \<Rightarrow> string
     \<Rightarrow> (error + zero_division) + string list \<times> string \<times> string list" where
  "sentences_loop tags limit text sentence printed [] = Inr (text, sentence, printed)"
| "sentences_loop tags limit text sentence printed (ch # rest) =
     (let sentence = sentence @ [ch] in
      if ch = CHR ''.'' \<and> length sentence > 1 then
        (let words = filter (\<lambda>word. length word > 0) (py_split CHR '' '' sentence) in
         case wordsNumber tags words of
           Inl e \<Rightarrow> Inl (Inl e)
         | Inr n \<Rightarrow>
             if length words = 0 then Inl (Inr ZeroDivisionError)
             else if of_nat n / of_nat (length words) > limit
               then sentences_loop tags limit (text @ [sentence]) [] printed rest
               else sentences_loop tags limit text [] (printed @ [sentence]) rest)
      else sentences_loop tags limit text sentence printed rest)"

definition filterMeaninglessSentences ::
  "string list \<Rightarrow> rat \<Rightarrow> string \<Rightarrow> (error + zero_division) + string \<times> string list" where
  "filterMeaninglessSentences tags limit string =
     (case sentences_loop tags limit [] [] [] string of
        Inl e \<Rightarrow> Inl e
      | Inr (text, sentence, printed) \<Rightarrow> Inr (concat text, printed))"

section \<open>Predicates used in the statements and proofs\<close>

text \<open>No two neighbouring characters are both white space.\<close>

fun single_spaced :: "string \<Rightarrow> bool" where
  "single_spaced [] = True"
| "single_spaced [c] = True"
| "single_spaced (c # d # cs) = (\<not> (isspace_char c \<and> isspace_char d) \<and> single_spaced (d # cs))"

text \<open>Two records for the examples: one without any text, one with two parameters.\<close>

definition sample_method :: Method where
  "sample_method = \<lparr>description = \<lparr>dparams = [\<lparr>name = ''maxSize''\<rparr>, \<lparr>name = ''n''\<rparr>]\<rparr>,
         javaDoc = \<lparr>head = ''Gets n of them'', params = [''a size'', ''n is 2''],
                    variables = [], results = [''true''], throws = [], sees = []\<rparr>\<rparr>"

definition empty_method :: Method where
  "empty_method = \<lparr>description = \<lparr>dparams = []\<rparr>,
         javaDoc = \<lparr>head = [], params = [], variables = [], results = [], throws = [], sees = []\<rparr>\<rparr>"


text \<open>
  The sentence filter in the words of the spec: a sentence ends at a period that follows
  at least one character; the words of a sentence are its non-empty pieces between
  spaces; a word is a key word when it starts with a key word of the vocabulary and the
  rest is empty or numeric; the ratio is the number of words that are key words or
  alphabetic divided by the number of words.
\<close>

fun spec_sentences :: "string \<Rightarrow> string list" where
  "spec_sentences [] = []"
| "spec_sentences (c # cs) =
     (case py_find cs ''.'' of
        None \<Rightarrow> []
      | Some i \<Rightarrow> (c # take (Suc i) cs) # spec_sentences (drop (Suc i) cs))"

definition spec_isKeyword :: "string list \<Rightarrow> string \<Rightarrow> bool" where
  "spec_isKeyword tags word =
     (\<exists>keyword \<in> set tags. prefix keyword word \<and>
        (drop (length keyword) word = [] \<or> isnumeric (drop (length keyword) word)))"

definition spec_words :: "string \<Rightarrow> string list" where
  "spec_words sentence = filter (\<lambda>word. word \<noteq> []) (py_split CHR '' '' sentence)"

definition meaningfulWordRatio :: "string list \<Rightarrow> string list \<Rightarrow> rat" where
  "meaningfulWordRatio tags words =
     of_nat (length (filter (\<lambda>word. spec_isKeyword tags word \<or> isalpha word) words))
       / of_nat (length words)"

definition above_limit :: "string list \<Rightarrow> rat \<Rightarrow> string \<Rightarrow> bool" where
  "above_limit tags limit sentence = (meaningfulWordRatio tags (spec_words sentence) > limit)"




section \<open>Facts about substring search\<close>

lemma py_find_zero_iff: "py_find s sub = Some 0 \<longleftrightarrow> prefix sub s"
  by (cases s) (auto split: if_splits)

lemma py_index_zero_iff: "py_index s sub = Inr 0 \<longleftrightarrow> prefix sub s"
  using py_find_zero_iff [of s sub]
  by (cases "py_find s sub") (auto simp: py_index_def)

lemma py_in_prefix: "prefix sub s \<Longrightarrow> py_in sub s"
  using py_find_zero_iff [of s sub] by (simp add: py_in_def)

lemma diff_prefix: "prefix k s \<Longrightarrow> diff s k = Inr (drop (length k) s)"
  using py_index_zero_iff [of s k] by (simp add: diff_def)

lemma isKeyWord_step:
  "isKeyWord (k # tags) s =
     (if prefix k s \<and> (drop (length k) s = [] \<or> isnumeric (drop (length k) s))
      then Inr True else isKeyWord tags s)"
  by (auto simp: py_index_zero_iff py_in_prefix diff_prefix)

lemma isKeyWord_eq:
  "isKeyWord tags w =
     Inr (\<exists>k \<in> set tags. prefix k w \<and> (drop (length k) w = [] \<or> isnumeric (drop (length k) w)))"
  by (induction tags) (auto simp: isKeyWord_step simp del: isKeyWord.simps(2))

lemma diff_absent: "\<not> py_in k s \<Longrightarrow> diff s k = Inl ValueError"
  by (simp add: py_in_def diff_def py_index_def)

section \<open>Whitespace collapsing and trimming\<close>

lemma py_in_sublist: "py_in sub s \<longleftrightarrow> sublist sub s"
  unfolding py_in_def
  by (induction s) (auto simp: sublist_Cons_right)


lemma isspace_tab: "isspace_char tab"
  by (simp add: isspace_char_def isspace_cp_def tab_def cp_def)

lemma isspace_blank: "isspace_char CHR '' ''"
  by (simp add: isspace_char_def isspace_cp_def cp_def)

lemma ends_blank:
  "ends blank_re g s =
     (case s of [] \<Rightarrow> []
      | c # cs \<Rightarrow> (if isspace_char c then [(g, cs)] else []) @ (if c = tab then [(g, cs)] else []))"
  by (simp add: blank_re_def Chr_def split: list.splits)

lemma ends_star_blank_re: "\<exists>more. ends (Star blank_re) g s = (g, dropWhile isspace_char s) # more"
proof (induction s)
  case Nil
  show ?case by (simp add: ends_blank)
next
  case (Cons c cs)
  show ?case
  proof (cases "isspace_char c")
    case True
    from Cons obtain more where "ends (Star blank_re) g cs = (g, dropWhile isspace_char cs) # more" by blast
    with True show ?thesis by (simp add: ends_blank)
  next
    case False
    then have "c \<noteq> tab" using isspace_tab by auto
    with False show ?thesis by (simp add: ends_blank)
  qed
qed

lemma re_match_spaces:
  "re_match spaces_re s =
     (case s of [] \<Rightarrow> None
      | c # cs \<Rightarrow> if isspace_char c then Some (Map.empty, dropWhile isspace_char cs) else None)"
proof (cases s)
  case Nil
  then show ?thesis by (simp add: re_match_def spaces_re_def Plus_def ends_blank)
next
  case (Cons c cs)
  obtain more where m: "ends (Star blank_re) Map.empty cs = (Map.empty, dropWhile isspace_char cs) # more"
    using ends_star_blank_re by blast
  show ?thesis
  proof (cases "isspace_char c")
    case True
    with m Cons show ?thesis
      by (simp add: re_match_def spaces_re_def Plus_def ends_blank)
  next
    case False
    then have "c \<noteq> tab" using isspace_tab by auto
    with False Cons show ?thesis
      by (simp add: re_match_def spaces_re_def Plus_def ends_blank)
  qed
qed

lemma filterLongSpaces_Nil: "filterLongSpaces [] = []"
  by (simp add: filterLongSpaces_def)

lemma filterLongSpaces_Cons:
  "filterLongSpaces (c # cs) =
     (if isspace_char c then CHR '' '' # filterLongSpaces (dropWhile isspace_char cs)
      else c # filterLongSpaces cs)"
  by (simp add: filterLongSpaces_def re_match_spaces less_Suc_eq_le length_dropWhile_le)


lemma filterLongSpaces_hd:
  "filterLongSpaces s = [] \<longleftrightarrow> s = []"
  "s \<noteq> [] \<Longrightarrow> isspace_char (hd (filterLongSpaces s)) \<longleftrightarrow> isspace_char (hd s)"
  by (cases s; simp add: filterLongSpaces_Nil filterLongSpaces_Cons isspace_blank)+

lemma single_spaced_Cons:
  "single_spaced (c # cs) \<longleftrightarrow> (cs = [] \<or> \<not> (isspace_char c \<and> isspace_char (hd cs))) \<and> single_spaced cs"
  by (cases cs) auto

lemma dropWhile_hd: "dropWhile P xs \<noteq> [] \<Longrightarrow> \<not> P (hd (dropWhile P xs))"
  using hd_dropWhile by blast

lemma single_spaced_filterLongSpaces: "single_spaced (filterLongSpaces s)"
proof (induction s rule: length_induct)
  case (1 s)
  show ?case
  proof (cases s)
    case Nil
    then show ?thesis by (simp add: filterLongSpaces_Nil)
  next
    case (Cons c cs)
    show ?thesis
    proof (cases "isspace_char c")
      case True
      let ?d = "dropWhile isspace_char cs"
      have "length ?d < length s" using Cons by (simp add: less_Suc_eq_le length_dropWhile_le)
      with 1 have ih: "single_spaced (filterLongSpaces ?d)" by blast
      have "?d \<noteq> [] \<Longrightarrow> \<not> isspace_char (hd (filterLongSpaces ?d))"
        using filterLongSpaces_hd(2) [of ?d] dropWhile_hd [of isspace_char cs] by blast
      with ih True Cons show ?thesis
        by (auto simp: filterLongSpaces_Cons single_spaced_Cons filterLongSpaces_hd(1))
    next
      case False
      have "length cs < length s" using Cons by simp
      with 1 have "single_spaced (filterLongSpaces cs)" by blast
      with False Cons show ?thesis
        by (simp add: filterLongSpaces_Cons single_spaced_Cons)
    qed
  qed
qed

lemma single_spaced_tl: "single_spaced xs \<Longrightarrow> single_spaced (tl xs)"
  by (cases xs) (auto simp: single_spaced_Cons)

lemma single_spaced_append: "single_spaced (xs @ ys) \<Longrightarrow> single_spaced xs"
  by (induction xs rule: single_spaced.induct) (auto simp: single_spaced_Cons)

lemma single_spaced_butlast: "single_spaced xs \<Longrightarrow> single_spaced (butlast xs)"
  using single_spaced_append [of "butlast xs" "[last xs]"] by (cases "xs = []") auto

lemma single_spaced_snoc:
  "single_spaced (xs @ [c, d]) \<Longrightarrow> \<not> (isspace_char c \<and> isspace_char d)"
  by (induction xs rule: single_spaced.induct) (auto simp: single_spaced_Cons)

lemma single_spaced_no_sublist: "single_spaced xs \<Longrightarrow> \<not> sublist ''  '' xs"
proof (induction xs rule: single_spaced.induct)
  case (3 c d cs)
  then show ?case by (auto simp: sublist_Cons_right isspace_blank)
qed (auto simp: sublist_Cons_right)

lemma trim_props:
  assumes "single_spaced xs"
  shows "single_spaced (filterFirstAndEndSpaces xs)"
    and "\<not> prefix '' '' (filterFirstAndEndSpaces xs)"
    and "\<not> suffix '' '' (filterFirstAndEndSpaces xs)"
proof -
  define ys where "ys = (if hd xs = CHR '' '' then tl xs else xs)"
  have ys: "single_spaced ys" using assms by (simp add: ys_def single_spaced_tl)
  have hd_ys: "xs \<noteq> [] \<Longrightarrow> ys \<noteq> [] \<Longrightarrow> hd ys \<noteq> CHR '' ''"
    using assms by (cases xs; cases "tl xs") (auto simp: ys_def isspace_blank)
  define zs where "zs = (if last ys = CHR '' '' then butlast ys else ys)"
  have zs: "single_spaced zs" using ys by (simp add: zs_def single_spaced_butlast)
  have out: "filterFirstAndEndSpaces xs = (if xs = [] then [] else if ys = [] then [] else zs)"
    by (auto simp: filterFirstAndEndSpaces_def ys_def zs_def Let_def)
  show "single_spaced (filterFirstAndEndSpaces xs)" using zs by (simp add: out)
  have last_zs: "ys \<noteq> [] \<Longrightarrow> zs \<noteq> [] \<Longrightarrow> last zs \<noteq> CHR '' ''"
  proof -
    assume "ys \<noteq> []" "zs \<noteq> []"
    show ?thesis
    proof (cases "last ys = CHR '' ''")
      case False then show ?thesis by (simp add: zs_def)
    next
      case True
      then have z: "zs = butlast ys" by (simp add: zs_def)
      with \<open>zs \<noteq> []\<close> have "ys = butlast zs @ [last zs, last ys]"
        using \<open>ys \<noteq> []\<close> by (metis append_butlast_last_id append.assoc append_Cons append_Nil)
      with ys have "\<not> (isspace_char (last zs) \<and> isspace_char (last ys))"
        using single_spaced_snoc by metis
      with True show ?thesis using isspace_blank by auto
    qed
  qed
  have hd_zs: "xs \<noteq> [] \<Longrightarrow> ys \<noteq> [] \<Longrightarrow> zs \<noteq> [] \<Longrightarrow> hd zs \<noteq> CHR '' ''"
    using hd_ys by (cases ys) (auto simp: zs_def split: if_splits)
  show "\<not> prefix '' '' (filterFirstAndEndSpaces xs)"
    using hd_zs by (auto simp: out prefix_def)
  show "\<not> suffix '' '' (filterFirstAndEndSpaces xs)"
    using last_zs by (auto simp: out suffix_def)
qed

text \<open>
  Claim C7. For every string, the text that \<open>filterLongSpaces\<close> followed by
  \<open>filterFirstAndEndSpaces\<close> returns does not start with a space, does not end with a
  space and has no two spaces in a row.
\<close>

theorem collapse_and_trim:
  "\<not> prefix '' '' (filterFirstAndEndSpaces (filterLongSpaces string))
   \<and> \<not> suffix '' '' (filterFirstAndEndSpaces (filterLongSpaces string))
   \<and> \<not> py_in ''  '' (filterFirstAndEndSpaces (filterLongSpaces string))"
  using trim_props [OF single_spaced_filterLongSpaces [of string]]
  by (simp add: py_in_sublist single_spaced_no_sublist)

section \<open>The lexical classifier: what \<open>isKeyWord\<close> decides, and that it never raises\<close>

text \<open>
  Claim C6. \<open>isKeyWord\<close> answers true exactly when the word starts, at position 0, with
  one of the key words and what is left after that key word is empty or numeric
  (\<open>str.isnumeric\<close>). With the vocabulary of the spec, \<open>VARIABLE3\<close> and \<open>VARIABLE\<close> are
  key words and \<open>VARIABLEX\<close> is not.
\<close>

theorem isKeyWord_spec:
  "isKeyWord tags word =
     Inr (\<exists>keyword \<in> set tags. prefix keyword word \<and>
            (drop (length keyword) word = [] \<or> isnumeric (drop (length keyword) word)))
   \<and> isKeyWord TAGS ''VARIABLE3'' = Inr True
   \<and> isKeyWord TAGS ''VARIABLE'' = Inr True
   \<and> isKeyWord TAGS ''VARIABLEX'' = Inr False"
proof -
  have a: "isKeyWord TAGS ''VARIABLE3'' = Inr True" by code_simp
  have b: "isKeyWord TAGS ''VARIABLE'' = Inr True" by code_simp
  have c: "isKeyWord TAGS ''VARIABLEX'' = Inr False" by code_simp
  show ?thesis using a b c isKeyWord_eq [of tags word] by simp
qed

text \<open>
  Claim C10. \<open>isKeyWord\<close> returns a boolean on every list of key words and every string:
  it never raises. \<open>diff\<close> does raise \<open>ValueError\<close> when its second argument does not
  occur in the first, but under the guard of \<open>isKeyWord\<close> (the key word occurs, at index
  0) it returns the string without that prefix.
\<close>

theorem isKeyWord_never_raises:
  "(\<exists>b. isKeyWord tags string = Inr b)
   \<and> (py_in keyword string \<and> py_index string keyword = Inr 0
        \<longrightarrow> diff string keyword = Inr (drop (length keyword) string))
   \<and> (\<not> py_in keyword string \<longrightarrow> diff string keyword = Inl ValueError)"
  using isKeyWord_eq [of tags string]
  by (auto simp: py_index_zero_iff diff_prefix diff_absent)

theorem isKeyWord_never_raises_witness:
  "(\<exists>b. isKeyWord TAGS ''VARIABLE3'' = Inr b)
   \<and> py_in ''VARIABLE'' ''VARIABLE3'' \<and> py_index ''VARIABLE3'' ''VARIABLE'' = Inr 0
   \<and> diff ''VARIABLE3'' ''VARIABLE'' = Inr ''3''
   \<and> \<not> py_in ''X'' ''VARIABLE3'' \<and> diff ''VARIABLE3'' ''X'' = Inl ValueError"
proof -
  have h1: "py_in ''VARIABLE'' ''VARIABLE3''" by code_simp
  have h2: "py_index ''VARIABLE3'' ''VARIABLE'' = Inr 0" by code_simp
  have h3: "\<not> py_in ''X'' ''VARIABLE3''" by code_simp
  show ?thesis
    using isKeyWord_never_raises [where tags = TAGS and string = "''VARIABLE3''" and keyword = "''VARIABLE''"]
      isKeyWord_never_raises [where tags = TAGS and string = "''VARIABLE3''" and keyword = "''X''"] h1 h2 h3
    by simp
qed

section \<open>String masking\<close>

text \<open>
  Claim C2. The claim is that \<open>filterStrings\<close> puts one placeholder token, between two
  spaces, in the place of every double-quoted literal. The source passes the text being
  filtered as the replacement (\<open>" %s " % string\<close>), where every other pass passes a
  constant of the vocabulary: on \<open>say "hi" now\<close> the literal is replaced by the whole
  text between two spaces, and the literal \<open>"hi"\<close> is still there.
\<close>

theorem filterStrings_inserts_text:
  "filterStrings (''say '' @ [dquote] @ ''hi'' @ [dquote] @ '' now'')
     = Inr (''say  say '' @ [dquote] @ ''hi'' @ [dquote] @ '' now  now'')"
  by code_simp

section \<open>The escape and restore passes of the stable reduction\<close>





section \<open>The orchestrator and the per-record applicator\<close>

lemma sample_method_filtered:
  "applyFiltersForMethod ''.,'' sample_method =
     Inr (sample_method\<lparr>javaDoc := \<lparr>head = ''gets VARIABLE1 of them'',
             params = [''a size'', ''n is NUMBER''],
             variables = [''@variable0 max size'', ''@variable1 n''],
             results = [''TRUE''], throws = [], sees = []\<rparr>\<rparr>)"
  by code_simp

lemma empty_method_filtered: "applyFiltersForMethod ''.,'' empty_method = Inr empty_method"
  by code_simp


lemma traverse_Inr:
  "traverse f xs = Inr ys \<Longrightarrow> length ys = length xs \<and> (\<forall>i<length xs. f (xs ! i) = Inr (ys ! i))"
proof (induction xs arbitrary: ys)
  case Nil
  then show ?case by simp
next
  case (Cons x xs)
  then obtain y ys' where y: "f x = Inr y" and t: "traverse f xs = Inr ys'" and ys: "ys = y # ys'"
    by (auto split: sum.splits)
  from Cons.IH [OF t] have "length ys' = length xs" "\<forall>i<length xs. f (xs ! i) = Inr (ys' ! i)" by auto
  with y ys show ?case by (auto simp: nth_Cons split: nat.splits)
qed

text \<open>
  Claim C4. When \<open>applyFiltersForMethods\<close> returns, there is the list of the transformed
  records, one per input record and at the same position (record \<open>i\<close> of it is
  \<open>applyFiltersForMethod\<close> of input record \<open>i\<close>), and the result lists, for each transformed
  record that the predicate keeps and in that order, exactly the four pairs \<open>head\<close> (the
  summary as it stands), \<open>params\<close>, \<open>variables\<close> and \<open>results\<close>, each of the last three
  the descriptions joined with \<open>NEXT\<close> between two spaces.
\<close>

theorem applyFiltersForMethods_order_and_shape:
  "applyFiltersForMethods punctuation methods filtrator = Inr joined \<Longrightarrow>
     \<exists>transformed.
        length transformed = length methods
      \<and> (\<forall>i<length methods.
            applyFiltersForMethod punctuation (methods ! i) = Inr (transformed ! i))
      \<and> joined =
          map (\<lambda>m. [(''head'', head (javaDoc m)),
                     (''params'', py_join ('' '' @ NEXT @ '' '') (params (javaDoc m))),
                     (''variables'', py_join ('' '' @ NEXT @ '' '') (variables (javaDoc m))),
                     (''results'', py_join ('' '' @ NEXT @ '' '') (results (javaDoc m)))])
              (filter filtrator transformed)"
proof -
  assume a: "applyFiltersForMethods punctuation methods filtrator = Inr joined"
  then obtain ms where t: "traverse (applyFiltersForMethod punctuation) methods = Inr ms"
    and j: "joined = map join (map javaDoc (filter filtrator ms))"
    by (auto simp: applyFiltersForMethods_def Let_def split: sum.splits)
  from traverse_Inr [OF t] j show ?thesis
    by (intro exI [of _ ms]) (simp add: join_def spaced_def comp_def)
qed


theorem applyFiltersForMethods_order_and_shape_witness:
  "applyFiltersForMethods ''.,'' [empty_method, sample_method] isNotEmpty = Inr [[(''head'', ''gets VARIABLE1 of them''),
            (''params'', ''a size NEXT n is NUMBER''),
            (''variables'', ''@variable0 max size NEXT @variable1 n''),
            (''results'', ''TRUE'')]]
   \<and> (\<exists>transformed.
        length transformed = length [empty_method, sample_method]
      \<and> (\<forall>i<length [empty_method, sample_method].
            applyFiltersForMethod ''.,'' ([empty_method, sample_method] ! i) = Inr (transformed ! i))
      \<and> [[(''head'', ''gets VARIABLE1 of them''),
            (''params'', ''a size NEXT n is NUMBER''),
            (''variables'', ''@variable0 max size NEXT @variable1 n''),
            (''results'', ''TRUE'')]] =
          map (\<lambda>m. [(''head'', head (javaDoc m)),
                     (''params'', py_join ('' '' @ NEXT @ '' '') (params (javaDoc m))),
                     (''variables'', py_join ('' '' @ NEXT @ '' '') (variables (javaDoc m))),
                     (''results'', py_join ('' '' @ NEXT @ '' '') (results (javaDoc m)))])
              (filter isNotEmpty transformed))"
proof (rule conjI)
  have "traverse (applyFiltersForMethod ''.,'') [empty_method, sample_method] =
      Inr [empty_method, sample_method\<lparr>javaDoc := \<lparr>head = ''gets VARIABLE1 of them'',
             params = [''a size'', ''n is NUMBER''],
             variables = [''@variable0 max size'', ''@variable1 n''],
             results = [''TRUE''], throws = [], sees = []\<rparr>\<rparr>]"
    by (simp add: empty_method_filtered sample_method_filtered)
  then show h: "applyFiltersForMethods ''.,'' [empty_method, sample_method] isNotEmpty = Inr [[(''head'', ''gets VARIABLE1 of them''),
            (''params'', ''a size NEXT n is NUMBER''),
            (''variables'', ''@variable0 max size NEXT @variable1 n''),
            (''results'', ''TRUE'')]]"
    by (simp add: applyFiltersForMethods_def isNotEmpty_def empty_def
          empty_method_def sample_method_def join_def spaced_def NEXT_def)
  show "\<exists>transformed.
        length transformed = length [empty_method, sample_method]
      \<and> (\<forall>i<length [empty_method, sample_method].
            applyFiltersForMethod ''.,'' ([empty_method, sample_method] ! i) = Inr (transformed ! i))
      \<and> [[(''head'', ''gets VARIABLE1 of them''),
            (''params'', ''a size NEXT n is NUMBER''),
            (''variables'', ''@variable0 max size NEXT @variable1 n''),
            (''results'', ''TRUE'')]] =
          map (\<lambda>m. [(''head'', head (javaDoc m)),
                     (''params'', py_join ('' '' @ NEXT @ '' '') (params (javaDoc m))),
                     (''variables'', py_join ('' '' @ NEXT @ '' '') (variables (javaDoc m))),
                     (''results'', py_join ('' '' @ NEXT @ '' '') (results (javaDoc m)))])
              (filter isNotEmpty transformed)"
    by (rule applyFiltersForMethods_order_and_shape [OF h])
qed

lemma not_keyword_at: "isKeyWord TAGS (CHR ''@'' # w) = Inr False"
  by (simp add: isKeyWord_eq vocabulary_defs)

text \<open>
  Claim C9. When \<open>applyFiltersForMethod\<close> returns, the derived-variable descriptions are
  one per parameter, and entry \<open>i\<close> is \<open>@variable\<close>, the index \<open>i\<close>, a space and the result
  of the pipeline on the name of parameter \<open>i\<close> converted to lower-case words separated
  by spaces. The prefix \<open>@variable<i>\<close> is not a key word of the vocabulary.
\<close>

theorem derived_variables_shape:
  "applyFiltersForMethod punctuation method = Inr method' \<Longrightarrow>
     length (variables (javaDoc method')) = length (dparams (description method))
   \<and> (\<forall>i<length (dparams (description method)).
         \<exists>v. applyFiltersForString punctuation
                (py_replace ''_'' '' '' (convert (name (dparams (description method) ! i))))
                (map name (dparams (description method))) = Inr v
           \<and> variables (javaDoc method') ! i = ''@variable'' @ string_of_nat i @ '' '' @ v
           \<and> isKeyWord TAGS (''@variable'' @ string_of_nat i) = Inr False)"
proof -
  assume a: "applyFiltersForMethod punctuation method = Inr method'"
  let ?ps = "map name (dparams (description method))"
  let ?f = "\<lambda>(i, name).
                case applyFiltersForString punctuation (py_replace ''_'' '' '' (convert name)) ?ps of
                  Inl e \<Rightarrow> Inl e
                | Inr v \<Rightarrow> Inr (''@variable'' @ string_of_nat i @ '' '' @ v)"
  from a obtain vs where t: "traverse ?f (List.enumerate 0 ?ps) = Inr vs"
    and v: "variables (javaDoc method') = vs"
    by (auto simp: applyFiltersForMethod_def Let_def split: sum.splits)
  from traverse_Inr [OF t] have len: "length vs = length ?ps"
    and each: "\<forall>i<length ?ps. ?f (List.enumerate 0 ?ps ! i) = Inr (vs ! i)" by auto
  have "\<exists>w. applyFiltersForString punctuation
                (py_replace ''_'' '' '' (convert (name (dparams (description method) ! i))))
                ?ps = Inr w
           \<and> vs ! i = ''@variable'' @ string_of_nat i @ '' '' @ w"
    if i: "i < length (dparams (description method))" for i
  proof -
    from each i have "?f (i, ?ps ! i) = Inr (vs ! i)" by (simp add: nth_enumerate_eq)
    with i show ?thesis by (auto split: sum.splits)
  qed
  with len v show ?thesis using not_keyword_at by auto
qed

theorem derived_variables_shape_witness:
  "applyFiltersForMethod ''.,'' sample_method =
     Inr (sample_method\<lparr>javaDoc := \<lparr>head = ''gets VARIABLE1 of them'',
             params = [''a size'', ''n is NUMBER''],
             variables = [''@variable0 max size'', ''@variable1 n''],
             results = [''TRUE''], throws = [], sees = []\<rparr>\<rparr>)
   \<and> applyFiltersForString ''.,'' (py_replace ''_'' '' '' (convert ''maxSize'')) [''maxSize'', ''n'']
        = Inr ''max size''
   \<and> applyFiltersForString ''.,'' (py_replace ''_'' '' '' (convert ''n'')) [''maxSize'', ''n'']
        = Inr ''n''
   \<and> isKeyWord TAGS ''@variable0'' = Inr False \<and> isKeyWord TAGS ''@variable1'' = Inr False"
proof -
  have k: "string_of_nat 0 = ''0''" "string_of_nat (Suc 0) = ''1''" by code_simp+
  have d: "dparams (description sample_method) = [\<lparr>name = ''maxSize''\<rparr>, \<lparr>name = ''n''\<rparr>]"
    by (simp add: sample_method_def)
  from derived_variables_shape [OF sample_method_filtered] have
    "\<forall>i<2. \<exists>v. applyFiltersForString ''.,''
                (py_replace ''_'' '' '' (convert (name ([\<lparr>name = ''maxSize''\<rparr>, \<lparr>name = ''n''\<rparr>] ! i))))
                [''maxSize'', ''n''] = Inr v
           \<and> [''@variable0 max size'', ''@variable1 n''] ! i = ''@variable'' @ string_of_nat i @ '' '' @ v
           \<and> isKeyWord TAGS (''@variable'' @ string_of_nat i) = Inr False"
    by (simp add: d)
  then have "\<exists>v. applyFiltersForString ''.,'' (py_replace ''_'' '' '' (convert ''maxSize''))
                [''maxSize'', ''n''] = Inr v
           \<and> ''@variable0 max size'' = ''@variable'' @ string_of_nat 0 @ '' '' @ v
           \<and> isKeyWord TAGS (''@variable'' @ string_of_nat 0) = Inr False"
    and "\<exists>v. applyFiltersForString ''.,'' (py_replace ''_'' '' '' (convert ''n''))
                [''maxSize'', ''n''] = Inr v
           \<and> ''@variable1 n'' = ''@variable'' @ string_of_nat 1 @ '' '' @ v
           \<and> isKeyWord TAGS (''@variable'' @ string_of_nat 1) = Inr False"
    by (auto dest: spec [of _ 0] spec [of _ 1])
  then show ?thesis using sample_method_filtered by (auto simp: k)
qed

section \<open>The sentence filter against the spec\<close>

lemma wordsNumber_eq:
  "wordsNumber tags ws = Inr (length (filter (\<lambda>w. spec_isKeyword tags w \<or> isalpha w) ws))"
  by (induction ws) (simp_all add: isKeyWord_eq spec_isKeyword_def)

lemma py_split_last: "s \<noteq> [] \<Longrightarrow> last s \<noteq> d \<Longrightarrow> last (py_split d s) \<noteq> []"
proof (induction s)
  case Nil then show ?case by simp
next
  case (Cons c cs)
  show ?case
  proof (cases cs)
    case Nil with Cons show ?thesis by simp
  next
    case (Cons x xs)
    have ne: "py_split d cs \<noteq> []" for cs by (cases cs) auto
    from Cons Cons.prems Cons.IH have "last (py_split d cs) \<noteq> []" using \<open>cs = x # xs\<close> 
      by (metis Cons.prems(2) last_ConsR list.distinct(1) local.Cons.IH)
    then show ?thesis using ne [of cs] by (cases "py_split d cs") (auto split: if_splits)
  qed
qed


lemma spec_words_nonempty:
  assumes "sentence \<noteq> []" "last sentence = CHR ''.''"
  shows "spec_words sentence \<noteq> []"
proof -
  have ne: "py_split d cs \<noteq> []" for d cs by (cases cs) auto
  have "last (py_split CHR '' '' sentence) \<noteq> []"
    using assms py_split_last [of sentence "CHR '' ''"] by simp
  moreover have "last (py_split CHR '' '' sentence) \<in> set (py_split CHR '' '' sentence)"
    using ne by simp
  ultimately show ?thesis by (auto simp: spec_words_def filter_empty_conv)
qed

lemma py_find_period_absent: "CHR ''.'' \<notin> set cs \<Longrightarrow> py_find cs ''.'' = None"
  by (induction cs) auto

lemma py_find_period_first:
  "CHR ''.'' \<notin> set cs \<Longrightarrow> py_find (cs @ CHR ''.'' # rest) ''.'' = Some (length cs)"
  by (induction cs) auto

lemma spec_sentences_open:
  "CHR ''.'' \<notin> set (tl sentence) \<Longrightarrow> spec_sentences sentence = []"
  by (cases sentence) (simp_all add: py_find_period_absent)

lemma spec_sentences_close:
  "sentence \<noteq> [] \<Longrightarrow> CHR ''.'' \<notin> set (tl sentence) \<Longrightarrow>
     spec_sentences (sentence @ CHR ''.'' # rest) = (sentence @ ''.'') # spec_sentences rest"
  by (cases sentence) (simp_all add: py_find_period_first)

lemma sentences_loop_eq:
  "CHR ''.'' \<notin> set (tl sentence) \<Longrightarrow>
     \<exists>left. sentences_loop tags limit text sentence printed rest =
       Inr (text @ filter (above_limit tags limit) (spec_sentences (sentence @ rest)), left,
            printed @ filter (\<lambda>x. \<not> above_limit tags limit x) (spec_sentences (sentence @ rest)))"
proof (induction rest arbitrary: "text" sentence printed)
  case Nil
  then show ?case by (simp add: spec_sentences_open)
next
  case (Cons ch rest)
  show ?case
  proof (cases "ch = CHR ''.'' \<and> sentence \<noteq> []")
    case True
    let ?s = "sentence @ ''.''"
    have w: "spec_words ?s \<noteq> []" by (rule spec_words_nonempty) simp_all
    have split: "spec_sentences (sentence @ CHR ''.'' # rest) = ?s # spec_sentences rest"
      using True Cons.prems by (simp add: spec_sentences_close)
    have acc: "above_limit tags limit ?s \<longleftrightarrow>
        of_nat (length (filter (\<lambda>w. spec_isKeyword tags w \<or> isalpha w) (spec_words ?s)))
          / of_nat (length (spec_words ?s)) > limit"
      by (simp add: above_limit_def meaningfulWordRatio_def)
    show ?thesis
    proof (cases "above_limit tags limit ?s")
      case a: True
      from Cons.IH [of "[]" "text @ [?s]" printed]
      obtain left where "sentences_loop tags limit (text @ [?s]) [] printed rest =
         Inr ((text @ [?s]) @ filter (above_limit tags limit) (spec_sentences rest), left,
              printed @ filter (\<lambda>x. \<not> above_limit tags limit x) (spec_sentences rest))"
        by auto
      with True a w acc show ?thesis
        by (simp add: split wordsNumber_eq spec_words_def [symmetric] Let_def)
    next
      case a: False
      from Cons.IH [of "[]" "text" "printed @ [?s]"]
      obtain left where "sentences_loop tags limit text [] (printed @ [?s]) rest =
         Inr (text @ filter (above_limit tags limit) (spec_sentences rest), left,
              (printed @ [?s]) @ filter (\<lambda>x. \<not> above_limit tags limit x) (spec_sentences rest))"
        by auto
      with True a w acc show ?thesis
        by (simp add: split wordsNumber_eq spec_words_def [symmetric] Let_def)
    qed
  next
    case False
    have "CHR ''.'' \<notin> set (tl (sentence @ [ch]))"
      using False Cons.prems by (cases sentence) auto
    from Cons.IH [OF this, of "text" printed]
    obtain left where "sentences_loop tags limit text (sentence @ [ch]) printed rest =
         Inr (text @ filter (above_limit tags limit) (spec_sentences ((sentence @ [ch]) @ rest)), left,
              printed @ filter (\<lambda>x. \<not> above_limit tags limit x) (spec_sentences ((sentence @ [ch]) @ rest)))"
      by auto
    with False show ?thesis by (auto simp: Let_def)
  qed
qed

text \<open>
  Claim C8, as stated, fails at the threshold itself: with the threshold one half, the
  sentence \<open>a 1.\<close> has two words of which one is alphabetic, a ratio of exactly one half,
  and it is printed and dropped, not retained.
\<close>

theorem sentence_at_limit_counterexample:
  "spec_sentences ''a 1.'' = [''a 1.'']
   \<and> meaningfulWordRatio TAGS (spec_words ''a 1.'') = 1 / 2
   \<and> filterMeaninglessSentences TAGS (1 / 2) ''a 1.'' = Inr ([], [''a 1.''])"
  by code_simp

text \<open>
  Claim C8, amended. \<open>filterMeaninglessSentences\<close> returns the concatenation of exactly
  those sentences of the text (split where a period follows at least one character)
  whose ratio of meaningful words is strictly above the threshold, and prints every
  other sentence, in order. It never raises: a sentence always has a word. Text after
  the last such period belongs to no sentence and is neither returned nor printed.
\<close>

theorem filterMeaninglessSentences_spec:
  "filterMeaninglessSentences tags limit string =
     Inr (concat (filter (\<lambda>sentence. meaningfulWordRatio tags (spec_words sentence) > limit)
                    (spec_sentences string)),
          filter (\<lambda>sentence. \<not> meaningfulWordRatio tags (spec_words sentence) > limit)
            (spec_sentences string))"
proof -
  from sentences_loop_eq [of "[]" tags limit "[]" "[]" string]
  obtain left where "sentences_loop tags limit [] [] [] string =
       Inr (filter (above_limit tags limit) (spec_sentences string), left,
            filter (\<lambda>x. \<not> above_limit tags limit x) (spec_sentences string))"
    by auto
  then show ?thesis
    by (simp add: filterMeaninglessSentences_def above_limit_def [abs_def])
qed

section \<open>Parameter-name substitution\<close>


















section \<open>The pipeline and filesystem paths\<close>



























end
